theory Spec2Isabelle
  imports Main "HOL-Library.Sublist"
begin

section \<open>Data model\<close>

text \<open>
  The Go structs read by the controller become records. A Go pointer that may be nil is an
  \<open>option\<close>; a \<open>map[string]string\<close> is a partial function, wrapped in \<open>option\<close> where the
  code distinguishes a nil map (\<open>Labels\<close>, compared with \<open>reflect.DeepEqual\<close>).
  Only the fields the controller reads or writes are kept, plus \<open>ResourceVersion\<close> and
  \<open>Status\<close> as representatives of what an update carries over from the existing object.
\<close>

record OwnerReference =
  ref_APIVersion :: string
  ref_Kind :: string
  ref_Name :: string
  ref_UID :: string
  ref_Controller :: "bool option"
  ref_BlockOwnerDeletion :: "bool option"

record ObjectMeta =
  Name :: string
  Namespace :: string
  UID :: string
  ResourceVersion :: string
  Labels :: "(string \<rightharpoonup> string) option"
  OwnerReferences :: "OwnerReference list"

text \<open>\<open>vsapi.CertManager\<close>: the cert-manager block of a VirtualServer's TLS section.\<close>

record CertManager =
  cm_ClusterIssuer :: string
  cm_Issuer :: string
  cm_IssuerKind :: string
  cm_IssuerGroup :: string
  cm_CommonName :: string
  cm_Duration :: string
  cm_RenewBefore :: string
  cm_Usages :: string

text \<open>
  \<open>vs.Spec.TLS.CertManager\<close> is passed where a \<open>*vsapi.CertManager\<close> is expected, so the
  field is a pointer: \<open>None\<close> is a VirtualServer without a cert-manager block.
\<close>

record TLS =
  Secret :: string
  tls_CertManager :: "CertManager option"

record VirtualServerSpec =
  Host :: string
  spec_TLS :: TLS

record VirtualServer =
  vs_ObjectMeta :: ObjectMeta
  vs_Spec :: VirtualServerSpec

text \<open>\<open>cmmeta.ObjectReference\<close>, the issuer reference of a Certificate.\<close>

record ObjectReference =
  iss_Name :: string
  iss_Kind :: string
  iss_Group :: string

text \<open>A \<open>time.Duration\<close> is a number of nanoseconds; \<open>*metav1.Duration\<close> may be nil.\<close>

record CertificateSpec =
  CommonName :: string
  Duration :: "int option"
  RenewBefore :: "int option"
  DNSNames :: "string list"
  SecretName :: string
  IssuerRef :: ObjectReference
  Usages :: "string list"

record Certificate =
  crt_ObjectMeta :: ObjectMeta
  crt_Spec :: CertificateSpec
  crt_Status :: string

record IngressShimOptions =
  DefaultIssuerName :: string
  DefaultIssuerKind :: string
  DefaultIssuerGroup :: string

section \<open>Errors\<close>

text \<open>
  \<open>ErrorsNew\<close> is \<open>errors.New\<close>. \<open>InvalidIngressAnnotation key why\<close> is the value of
  \<open>fmt.Errorf("%w %q: ...", errInvalidIngressAnnotation, key, ...)\<close>, kept structured.
  \<open>StatusError reason\<close> is an error of the API machinery; \<open>apierrors.IsNotFound\<close> looks at
  its reason.
\<close>

datatype annotation_failure = ParseFailure string | InvalidKeyUsageName string

datatype error =
    ErrorsNew string
  | InvalidIngressAnnotation string annotation_failure
  | StatusError string

definition errNilCertificate :: error where
  "errNilCertificate = ErrorsNew ''the supplied Certificate pointer was nil''"

text \<open>
  What a call does: it returns a value, returns a Go error, or panics (a nil pointer
  dereference, a failed type assertion).
\<close>

datatype 'a result = Ok 'a | Err error | Panic

fun IsNotFound :: "error option \<Rightarrow> bool" where
  "IsNotFound (Some (StatusError reason)) = (reason = ''NotFound'')"
| "IsNotFound _ = False"

section \<open>Constants of the cert-manager API\<close>

text \<open>
  The annotation keys are the ones the doc comments of \<open>translateAnnotations\<close>,
  \<open>getVsCmSpecIssuerAnnotations\<close> and \<open>issuerForIngressLike\<close> list.
\<close>

definition CommonNameAnnotationKey :: string where
  "CommonNameAnnotationKey = ''cert-manager.io/common-name''"

definition DurationAnnotationKey :: string where
  "DurationAnnotationKey = ''cert-manager.io/duration''"

definition RenewBeforeAnnotationKey :: string where
  "RenewBeforeAnnotationKey = ''cert-manager.io/renew-before''"

definition UsagesAnnotationKey :: string where
  "UsagesAnnotationKey = ''cert-manager.io/usages''"

definition IngressClusterIssuerNameAnnotationKey :: string where
  "IngressClusterIssuerNameAnnotationKey = ''cert-manager.io/cluster-issuer''"

definition IngressIssuerNameAnnotationKey :: string where
  "IngressIssuerNameAnnotationKey = ''cert-manager.io/issuer''"

definition IssuerKindAnnotationKey :: string where
  "IssuerKindAnnotationKey = ''cert-manager.io/issuer-kind''"

definition IssuerGroupAnnotationKey :: string where
  "IssuerGroupAnnotationKey = ''cert-manager.io/issuer-group''"

definition IssuerKind :: string where
  "IssuerKind = ''Issuer''"

definition ClusterIssuerKind :: string where
  "ClusterIssuerKind = ''ClusterIssuer''"

text \<open>
  The functions of Go's standard library and of cert-manager's \<open>apiutil\<close> that
  \<open>translateAnnotations\<close> and \<open>buildCertificates\<close> call are parameters of the model:
  \<open>time.ParseDuration\<close> (\<open>Inl\<close> the text of its error), the \<open>ok\<close> results of
  \<open>apiutil.KeyUsageType\<close> and \<open>apiutil.ExtKeyUsageType\<close>, and \<open>cmapi.DefaultKeyUsages()\<close>.
\<close>

record library =
  ParseDuration :: "string \<Rightarrow> string + int"
  KeyUsageType :: "string \<Rightarrow> bool"
  ExtKeyUsageType :: "string \<Rightarrow> bool"
  DefaultKeyUsages :: "string list"

section \<open>Strings\<close>

text \<open>\<open>strings.Join\<close>.\<close>

fun Join :: "string list \<Rightarrow> string \<Rightarrow> string" where
  "Join [] sep = []"
| "Join [s] sep = s"
| "Join (s # t # rest) sep = s @ sep @ Join (t # rest) sep"

text \<open>
  \<open>strings.Split s ","\<close> for a one-character separator: the pieces between the
  separators, so \<open>n\<close> separators give \<open>n + 1\<close> pieces and the empty string gives one
  empty piece.
\<close>

fun Split :: "string \<Rightarrow> char \<Rightarrow> string list" where
  "Split [] sep = [[]]"
| "Split (c # cs) sep =
     (if c = sep then [] # Split cs sep
      else (case Split cs sep of [] \<Rightarrow> [[c]] | p # ps \<Rightarrow> (c # p) # ps))"

text \<open>\<open>strings.Trim s " "\<close>: all leading and trailing spaces removed.\<close>

definition Trim :: "string \<Rightarrow> char \<Rightarrow> string" where
  "Trim s c = rev (dropWhile (\<lambda>x. x = c) (rev (dropWhile (\<lambda>x. x = c) s)))"

text \<open>
  The verb \<open>%q\<close> on a string that needs no escaping (the annotation keys): the string
  between double quotes.
\<close>

definition quoted :: "string \<Rightarrow> string" where
  "quoted s = [CHR 0x22] @ s @ [CHR 0x22]"

section \<open>helper.go: configuration to annotations, annotations to Certificate\<close>

type_synonym annotations = "string \<rightharpoonup> string"

text \<open>
  \<open>convertVsCmSpecToAnnotations\<close>. The first field read through a nil pointer panics.
  The three last assignments all write \<open>cmapi.DurationAnnotationKey\<close>, as the source does.
\<close>

fun convertVsCmSpecToAnnotations :: "CertManager option \<Rightarrow> annotations result" where
  "convertVsCmSpecToAnnotations None = Panic"
| "convertVsCmSpecToAnnotations (Some vsCmSpec) =
     (let a0 = Map.empty;
          a1 = (if cm_CommonName vsCmSpec \<noteq> []
                then a0(CommonNameAnnotationKey \<mapsto> cm_CommonName vsCmSpec) else a0);
          a2 = (if cm_Duration vsCmSpec \<noteq> []
                then a1(DurationAnnotationKey \<mapsto> cm_Duration vsCmSpec) else a1);
          a3 = (if cm_RenewBefore vsCmSpec \<noteq> []
                then a2(DurationAnnotationKey \<mapsto> cm_RenewBefore vsCmSpec) else a2);
          a4 = (if cm_Usages vsCmSpec \<noteq> []
                then a3(DurationAnnotationKey \<mapsto> cm_Usages vsCmSpec) else a3)
      in Ok a4)"

text \<open>\<open>getVsCmSpecShimAnnotations\<close>.\<close>

fun getVsCmSpecShimAnnotations :: "CertManager option \<Rightarrow> annotations result" where
  "getVsCmSpecShimAnnotations None = Panic"
| "getVsCmSpecShimAnnotations (Some vsCmSpec) =
     (let a0 = Map.empty;
          a1 = (if cm_ClusterIssuer vsCmSpec \<noteq> []
                then a0(IngressClusterIssuerNameAnnotationKey \<mapsto> cm_ClusterIssuer vsCmSpec)
                else a0);
          a2 = (if cm_Issuer vsCmSpec \<noteq> []
                then a1(IngressIssuerNameAnnotationKey \<mapsto> cm_Issuer vsCmSpec) else a1)
      in Ok a2)"

text \<open>
  \<open>getVsCmSpecIssuerAnnotations\<close>. After the call above returned, the pointer is not nil,
  so the two field reads that follow cannot panic; the \<open>None\<close> case of the inner match is
  the panic the call would already have raised.
\<close>

definition getVsCmSpecIssuerAnnotations :: "CertManager option \<Rightarrow> annotations result" where
  "getVsCmSpecIssuerAnnotations p =
     (case getVsCmSpecShimAnnotations p of
        Panic \<Rightarrow> Panic
      | Err e \<Rightarrow> Err e
      | Ok a0 \<Rightarrow>
          (case p of
             None \<Rightarrow> Panic
           | Some vsCmSpec \<Rightarrow>
               (let a1 = (if cm_IssuerKind vsCmSpec \<noteq> []
                          then a0(IssuerKindAnnotationKey \<mapsto> cm_IssuerKind vsCmSpec) else a0);
                    a2 = (if cm_IssuerGroup vsCmSpec \<noteq> []
                          then a1(IssuerGroupAnnotationKey \<mapsto> cm_IssuerGroup vsCmSpec) else a1)
                in Ok a2)))"

text \<open>
  \<open>translateAnnotations\<close> mutates the Certificate behind the pointer and returns an error
  or nil. The model returns the Certificate as it is when the function returns (the
  fields set before a failing key stay set) together with the error.
\<close>

text \<open>The loop over \<open>strings.Split(usages, ",")\<close>; \<open>newUsages\<close> is the accumulator.\<close>

fun usagesLoop :: "library \<Rightarrow> string list \<Rightarrow> string list \<Rightarrow> error + string list" where
  "usagesLoop lib [] newUsages = Inr newUsages"
| "usagesLoop lib (usageName # rest) newUsages =
     (let usage = Trim usageName CHR '' '';
          isKU = KeyUsageType lib usage;
          isEKU = ExtKeyUsageType lib usage
      in if \<not> isKU \<and> \<not> isEKU
         then Inl (InvalidIngressAnnotation UsagesAnnotationKey (InvalidKeyUsageName usageName))
         else usagesLoop lib rest (newUsages @ [usage]))"

definition applyCommonName :: "annotations \<Rightarrow> Certificate \<Rightarrow> Certificate" where
  "applyCommonName a crt =
     (case a CommonNameAnnotationKey of
        Some commonName \<Rightarrow> crt\<lparr>crt_Spec := (crt_Spec crt)\<lparr>CommonName := commonName\<rparr>\<rparr>
      | None \<Rightarrow> crt)"

definition applyDuration :: "library \<Rightarrow> annotations \<Rightarrow> Certificate \<Rightarrow> error + Certificate" where
  "applyDuration lib a crt =
     (case a DurationAnnotationKey of
        None \<Rightarrow> Inr crt
      | Some duration \<Rightarrow>
          (case ParseDuration lib duration of
             Inl err \<Rightarrow> Inl (InvalidIngressAnnotation DurationAnnotationKey (ParseFailure err))
           | Inr d \<Rightarrow> Inr (crt\<lparr>crt_Spec := (crt_Spec crt)\<lparr>Duration := Some d\<rparr>\<rparr>)))"

definition applyRenewBefore :: "library \<Rightarrow> annotations \<Rightarrow> Certificate \<Rightarrow> error + Certificate" where
  "applyRenewBefore lib a crt =
     (case a RenewBeforeAnnotationKey of
        None \<Rightarrow> Inr crt
      | Some renewBefore \<Rightarrow>
          (case ParseDuration lib renewBefore of
             Inl err \<Rightarrow> Inl (InvalidIngressAnnotation RenewBeforeAnnotationKey (ParseFailure err))
           | Inr d \<Rightarrow> Inr (crt\<lparr>crt_Spec := (crt_Spec crt)\<lparr>RenewBefore := Some d\<rparr>\<rparr>)))"

definition applyUsages :: "library \<Rightarrow> annotations \<Rightarrow> Certificate \<Rightarrow> error + Certificate" where
  "applyUsages lib a crt =
     (case a UsagesAnnotationKey of
        None \<Rightarrow> Inr crt
      | Some usages \<Rightarrow>
          (case usagesLoop lib (Split usages CHR '','') [] of
             Inl err \<Rightarrow> Inl err
           | Inr newUsages \<Rightarrow> Inr (crt\<lparr>crt_Spec := (crt_Spec crt)\<lparr>Usages := newUsages\<rparr>\<rparr>)))"

fun translateAnnotations ::
  "library \<Rightarrow> Certificate option \<Rightarrow> annotations \<Rightarrow> Certificate option \<times> error option" where
  "translateAnnotations lib None ingLikeAnnotations = (None, Some errNilCertificate)"
| "translateAnnotations lib (Some crt) ingLikeAnnotations =
     (let crt1 = applyCommonName ingLikeAnnotations crt in
      case applyDuration lib ingLikeAnnotations crt1 of
        Inl err \<Rightarrow> (Some crt1, Some err)
      | Inr crt2 \<Rightarrow>
          (case applyRenewBefore lib ingLikeAnnotations crt2 of
             Inl err \<Rightarrow> (Some crt2, Some err)
           | Inr crt3 \<Rightarrow>
               (case applyUsages lib ingLikeAnnotations crt3 of
                  Inl err \<Rightarrow> (Some crt3, Some err)
                | Inr crt4 \<Rightarrow> (Some crt4, None))))"

section \<open>Helpers of the Kubernetes API machinery\<close>

text \<open>
  \<open>metav1.GetControllerOf\<close>: the first owner reference whose \<open>Controller\<close> flag is set
  and true, or nil.
\<close>

fun controllerRef :: "OwnerReference list \<Rightarrow> OwnerReference option" where
  "controllerRef [] = None"
| "controllerRef (r # refs) =
     (if ref_Controller r = Some True then Some r else controllerRef refs)"

definition GetControllerOf :: "Certificate \<Rightarrow> OwnerReference option" where
  "GetControllerOf crt = controllerRef (OwnerReferences (crt_ObjectMeta crt))"

text \<open>\<open>metav1.IsControlledBy\<close>: the controller reference carries the owner's UID.\<close>

definition IsControlledBy :: "Certificate \<Rightarrow> VirtualServer \<Rightarrow> bool" where
  "IsControlledBy crt vs =
     (case GetControllerOf crt of
        None \<Rightarrow> False
      | Some r \<Rightarrow> ref_UID r = UID (vs_ObjectMeta vs))"

text \<open>
  \<open>vsGVK = vsapi.SchemeGroupVersion.WithKind("VirtualServer")\<close>; the group and version
  are those of the VirtualServer API.
\<close>

definition vsGVK_APIVersion :: string where
  "vsGVK_APIVersion = ''k8s.nginx.org/v1''"

definition vsGVK_Kind :: string where
  "vsGVK_Kind = ''VirtualServer''"

text \<open>\<open>metav1.NewControllerRef(vs, vsGVK)\<close>.\<close>

definition NewControllerRef :: "VirtualServer \<Rightarrow> OwnerReference" where
  "NewControllerRef vs =
     \<lparr>ref_APIVersion = vsGVK_APIVersion,
      ref_Kind = vsGVK_Kind,
      ref_Name = Name (vs_ObjectMeta vs),
      ref_UID = UID (vs_ObjectMeta vs),
      ref_Controller = Some True,
      ref_BlockOwnerDeletion = Some True\<rparr>"

section \<open>sync.go: the issuer\<close>

definition bothMayNotBeSet :: "string \<Rightarrow> string \<Rightarrow> string" where
  "bothMayNotBeSet k1 k2 = ''both '' @ quoted k1 @ '' and '' @ quoted k2 @ '' may not be set''"

text \<open>
  \<open>issuerForIngressLike\<close>. A lookup in a nil map finds nothing, so the replacement of a
  nil \<open>annotations\<close> by an empty map changes nothing in the model.
\<close>

definition issuerForIngressLike ::
  "IngressShimOptions \<Rightarrow> VirtualServer \<Rightarrow> (string \<times> string \<times> string) result" where
  "issuerForIngressLike defaults vs =
     (case getVsCmSpecIssuerAnnotations (tls_CertManager (spec_TLS (vs_Spec vs))) of
        Panic \<Rightarrow> Panic
      | Err err \<Rightarrow> Err err
      | Ok annotations \<Rightarrow>
          (let name0 = DefaultIssuerName defaults;
               kind0 = DefaultIssuerKind defaults;
               group0 = DefaultIssuerGroup defaults;
               issuerName = annotations IngressIssuerNameAnnotationKey;
               issuerNameOK = (issuerName \<noteq> None);
               name1 = (case issuerName of Some n \<Rightarrow> n | None \<Rightarrow> name0);
               kind1 = (if issuerNameOK then IssuerKind else kind0);
               clusterIssuerName = annotations IngressClusterIssuerNameAnnotationKey;
               clusterIssuerNameOK = (clusterIssuerName \<noteq> None);
               name2 = (case clusterIssuerName of Some n \<Rightarrow> n | None \<Rightarrow> name1);
               kind2 = (if clusterIssuerNameOK then ClusterIssuerKind else kind1);
               kindName = annotations IssuerKindAnnotationKey;
               kindNameOK = (kindName \<noteq> None);
               kind3 = (case kindName of Some k \<Rightarrow> k | None \<Rightarrow> kind2);
               groupName = annotations IssuerGroupAnnotationKey;
               groupNameOK = (groupName \<noteq> None);
               group1 = (case groupName of Some g \<Rightarrow> g | None \<Rightarrow> group0);
               errs0 = [];
               errs1 = (if length name2 = 0
                        then errs0 @ [''failed to determine issuer name to be used for virtualserver resource'']
                        else errs0);
               errs2 = (if issuerNameOK \<and> clusterIssuerNameOK
                        then errs1 @ [bothMayNotBeSet IngressIssuerNameAnnotationKey
                                        IngressClusterIssuerNameAnnotationKey]
                        else errs1);
               errs3 = (if clusterIssuerNameOK \<and> groupNameOK
                        then errs2 @ [bothMayNotBeSet IngressClusterIssuerNameAnnotationKey
                                        IssuerGroupAnnotationKey]
                        else errs2);
               errs4 = (if clusterIssuerNameOK \<and> kindNameOK
                        then errs3 @ [bothMayNotBeSet IngressClusterIssuerNameAnnotationKey
                                        IssuerKindAnnotationKey]
                        else errs3)
           in if length errs4 > 0 then Err (ErrorsNew (Join errs4 '', ''))
              else Ok (name2, kind3, group1)))"

section \<open>sync.go: building the Certificates\<close>

text \<open>
  The Certificate lister and the cert-manager client are the controller's view of the
  store; each call returns what Go returns, a result and an error that may be nil.
\<close>

record CertificateLister =
  lister_Get :: "string \<Rightarrow> string \<Rightarrow> Certificate option \<times> error option"
  lister_List :: "string \<Rightarrow> Certificate list \<times> error option"

record CertificateClient =
  client_Create :: "string \<Rightarrow> Certificate \<Rightarrow> error option"
  client_Update :: "string \<Rightarrow> Certificate \<Rightarrow> error option"
  client_Delete :: "string \<Rightarrow> string \<Rightarrow> error option"

text \<open>The loop of \<open>certNeedsUpdate\<close> over the DNS names; it runs on lists of equal length.\<close>

fun dnsNamesDiffer :: "string list \<Rightarrow> string list \<Rightarrow> bool" where
  "dnsNamesDiffer (x # xs) (y # ys) = (if x \<noteq> y then True else dnsNamesDiffer xs ys)"
| "dnsNamesDiffer _ _ = False"

definition certNeedsUpdate :: "Certificate \<Rightarrow> Certificate \<Rightarrow> bool" where
  "certNeedsUpdate a b =
     (if Name (crt_ObjectMeta a) \<noteq> Name (crt_ObjectMeta b) then True
      else if Labels (crt_ObjectMeta a) \<noteq> Labels (crt_ObjectMeta b) then True
      else if CommonName (crt_Spec a) \<noteq> CommonName (crt_Spec b) then True
      else if length (DNSNames (crt_Spec a)) \<noteq> length (DNSNames (crt_Spec b)) then True
      else if dnsNamesDiffer (DNSNames (crt_Spec a)) (DNSNames (crt_Spec b)) then True
      else if SecretName (crt_Spec a) \<noteq> SecretName (crt_Spec b) then True
      else if iss_Name (IssuerRef (crt_Spec a)) \<noteq> iss_Name (IssuerRef (crt_Spec b)) then True
      else if iss_Kind (IssuerRef (crt_Spec a)) \<noteq> iss_Kind (IssuerRef (crt_Spec b)) then True
      else False)"

text \<open>The struct literal \<open>crt := &cmapi.Certificate{...}\<close> of \<open>buildCertificates\<close>.\<close>

definition desiredCertificate ::
  "library \<Rightarrow> VirtualServer \<Rightarrow> string \<Rightarrow> string \<Rightarrow> string \<Rightarrow> Certificate" where
  "desiredCertificate lib vs issuerName issuerKind issuerGroup =
     (let hosts = [] @ [Host (vs_Spec vs)] in
      \<lparr>crt_ObjectMeta =
         \<lparr>Name = Secret (spec_TLS (vs_Spec vs)),
          Namespace = Namespace (vs_ObjectMeta vs),
          UID = [],
          ResourceVersion = [],
          Labels = Labels (vs_ObjectMeta vs),
          OwnerReferences = [NewControllerRef vs]\<rparr>,
       crt_Spec =
         \<lparr>CommonName = [],
          Duration = None,
          RenewBefore = None,
          DNSNames = hosts,
          SecretName = Secret (spec_TLS (vs_Spec vs)),
          IssuerRef = \<lparr>iss_Name = issuerName, iss_Kind = issuerKind, iss_Group = issuerGroup\<rparr>,
          Usages = DefaultKeyUsages lib\<rparr>,
       crt_Status = []\<rparr>)"

text \<open>
  The branch of \<open>buildCertificates\<close> for an existing Certificate: what it logs, and the
  update it appends. The three checks only log.
\<close>

definition existingLogs :: "Certificate \<Rightarrow> Certificate \<Rightarrow> VirtualServer \<Rightarrow> string list" where
  "existingLogs existingCrt crt vs =
     [''certificate already exists for this object, ensuring it is up to date'']
     @ (if GetControllerOf existingCrt = None
        then [''certificate resource has no owner. refusing to update non-owned certificate resource for object'']
        else [])
     @ (if \<not> IsControlledBy existingCrt vs
        then [''certificate resource is not owned by this object. refusing to update non-owned certificate resource for object'']
        else [])
     @ (if \<not> certNeedsUpdate existingCrt crt
        then [''certificate resource is already up to date for object'']
        else [])"

definition updateOf :: "Certificate \<Rightarrow> Certificate \<Rightarrow> Certificate" where
  "updateOf existingCrt crt =
     existingCrt\<lparr>crt_Spec := crt_Spec crt,
                 crt_ObjectMeta := (crt_ObjectMeta existingCrt)\<lparr>Labels := Labels (crt_ObjectMeta crt)\<rparr>\<rparr>"

text \<open>
  \<open>buildCertificates\<close> returns the log lines it wrote, the Certificates to create and
  the Certificates to update. The pointer given to \<open>translateAnnotations\<close> is never nil,
  so the last case of the match on its result is never taken.
\<close>

definition buildCertificates ::
  "library \<Rightarrow> CertificateLister \<Rightarrow> VirtualServer \<Rightarrow> string \<Rightarrow> string \<Rightarrow> string \<Rightarrow>
   (string list \<times> Certificate list \<times> Certificate list) result" where
  "buildCertificates lib cmLister vs issuerName issuerKind issuerGroup =
     (case lister_Get cmLister (Namespace (vs_ObjectMeta vs)) (Secret (spec_TLS (vs_Spec vs))) of
        (existingCrt, err) \<Rightarrow>
          (case (if \<not> IsNotFound err then err else None) of
             Some e \<Rightarrow> Err e
           | None \<Rightarrow>
               (let crt = desiredCertificate lib vs issuerName issuerKind issuerGroup in
                case convertVsCmSpecToAnnotations (tls_CertManager (spec_TLS (vs_Spec vs))) of
                  Panic \<Rightarrow> Panic
                | Err e \<Rightarrow> Err e
                | Ok a \<Rightarrow>
                    (case translateAnnotations lib (Some crt) a of
                       (_, Some e) \<Rightarrow> Err e
                     | (None, None) \<Rightarrow> Panic
                     | (Some crt', None) \<Rightarrow>
                         (case existingCrt of
                            Some ex \<Rightarrow> Ok (existingLogs ex crt' vs, [], [] @ [updateOf ex crt'])
                          | None \<Rightarrow> Ok ([], [] @ [crt'], []))))))"

section \<open>sync.go: garbage collection\<close>

definition secretNameUsedIn :: "string \<Rightarrow> VirtualServer \<Rightarrow> bool" where
  "secretNameUsedIn secretName vs = (secretName = Secret (spec_TLS (vs_Spec vs)))"

text \<open>The loop of \<open>findCertificatesToBeRemoved\<close>; \<open>toBeRemoved\<close> is the accumulator.\<close>

fun removalLoop :: "Certificate list \<Rightarrow> VirtualServer \<Rightarrow> string list \<Rightarrow> string list" where
  "removalLoop [] vs toBeRemoved = toBeRemoved"
| "removalLoop (crt # certs) vs toBeRemoved =
     (if \<not> IsControlledBy crt vs then removalLoop certs vs toBeRemoved
      else if \<not> secretNameUsedIn (SecretName (crt_Spec crt)) vs
           then removalLoop certs vs (toBeRemoved @ [Name (crt_ObjectMeta crt)])
           else removalLoop certs vs toBeRemoved)"

definition findCertificatesToBeRemoved :: "Certificate list \<Rightarrow> VirtualServer \<Rightarrow> string list" where
  "findCertificatesToBeRemoved certs vs = removalLoop certs vs []"

section \<open>sync.go: the reconciliation pass\<close>

text \<open>
  A pass is observed through the calls it makes to the cert-manager client, in order
  (a call that fails is recorded too), the events it records on the VirtualServer, the
  lines it logs, and what it returns: \<open>Ok ()\<close> is a nil error.
\<close>

datatype call =
    Create string Certificate
  | Update string Certificate
  | Delete string string

datatype arg = ArgString string | ArgError error

text \<open>\<open>rec.Eventf(vs, eventtype, reason, format, args...)\<close>, with the arguments unformatted.\<close>

datatype event = Eventf string string string "arg list"

definition EventTypeNormal :: string where
  "EventTypeNormal = ''Normal''"

definition EventTypeWarning :: string where
  "EventTypeWarning = ''Warning''"

definition reasonBadConfig :: string where
  "reasonBadConfig = ''BadConfig''"

definition reasonCreateCertificate :: string where
  "reasonCreateCertificate = ''CreateCertificate''"

definition reasonUpdateCertificate :: string where
  "reasonUpdateCertificate = ''UpdateCertificate''"

definition reasonDeleteCertificate :: string where
  "reasonDeleteCertificate = ''DeleteCertificate''"

record pass =
  calls :: "call list"
  events :: "event list"
  logs :: "string list"
  returned :: "unit result"

text \<open>The three loops of the pass. Each stops at the first call that fails.\<close>

fun createLoop ::
  "CertificateClient \<Rightarrow> Certificate list \<Rightarrow> call list \<times> event list \<times> error option" where
  "createLoop cmClient [] = ([], [], None)"
| "createLoop cmClient (crt # rest) =
     (case client_Create cmClient (Namespace (crt_ObjectMeta crt)) crt of
        Some err \<Rightarrow> ([Create (Namespace (crt_ObjectMeta crt)) crt], [], Some err)
      | None \<Rightarrow>
          (case createLoop cmClient rest of
             (cs, es, r) \<Rightarrow>
               (Create (Namespace (crt_ObjectMeta crt)) crt # cs,
                Eventf EventTypeNormal reasonCreateCertificate
                  ''Successfully created Certificate %q'' [ArgString (Name (crt_ObjectMeta crt))] # es,
                r)))"

fun updateLoop ::
  "CertificateClient \<Rightarrow> Certificate list \<Rightarrow> call list \<times> event list \<times> error option" where
  "updateLoop cmClient [] = ([], [], None)"
| "updateLoop cmClient (crt # rest) =
     (case client_Update cmClient (Namespace (crt_ObjectMeta crt)) crt of
        Some err \<Rightarrow> ([Update (Namespace (crt_ObjectMeta crt)) crt], [], Some err)
      | None \<Rightarrow>
          (case updateLoop cmClient rest of
             (cs, es, r) \<Rightarrow>
               (Update (Namespace (crt_ObjectMeta crt)) crt # cs,
                Eventf EventTypeNormal reasonUpdateCertificate
                  ''Successfully updated Certificate %q'' [ArgString (Name (crt_ObjectMeta crt))] # es,
                r)))"

fun deleteLoop ::
  "CertificateClient \<Rightarrow> string \<Rightarrow> string list \<Rightarrow> call list \<times> event list \<times> error option" where
  "deleteLoop cmClient ns [] = ([], [], None)"
| "deleteLoop cmClient ns (certName # rest) =
     (case client_Delete cmClient ns certName of
        Some err \<Rightarrow> ([Delete ns certName], [], Some err)
      | None \<Rightarrow>
          (case deleteLoop cmClient ns rest of
             (cs, es, r) \<Rightarrow>
               (Delete ns certName # cs,
                Eventf EventTypeNormal reasonDeleteCertificate
                  ''Successfully deleted unrequired Certificate %q'' [ArgString certName] # es,
                r)))"

text \<open>\<open>SyncFnFor\<close>, applied to a VirtualServer.\<close>

definition SyncFnFor ::
  "library \<Rightarrow> CertificateClient \<Rightarrow> CertificateLister \<Rightarrow> IngressShimOptions \<Rightarrow>
   VirtualServer \<Rightarrow> pass" where
  "SyncFnFor lib cmClient cmLister defaults vs =
     (case issuerForIngressLike defaults vs of
        Panic \<Rightarrow> \<lparr>calls = [], events = [], logs = [], returned = Panic\<rparr>
      | Err err \<Rightarrow>
          \<lparr>calls = [],
           events = [Eventf EventTypeWarning reasonBadConfig
                       ''Could not determine issuer for ingress due to bad annotations: %s''
                       [ArgError err]],
           logs = [''failed to determine issuer to be used for ingress resource''],
           returned = Ok ()\<rparr>
      | Ok (issuerName, issuerKind, issuerGroup) \<Rightarrow>
          (case buildCertificates lib cmLister vs issuerName issuerKind issuerGroup of
             Panic \<Rightarrow> \<lparr>calls = [], events = [], logs = [], returned = Panic\<rparr>
           | Err err \<Rightarrow> \<lparr>calls = [], events = [], logs = [], returned = Err err\<rparr>
           | Ok (ls, newCrts, updateCrts) \<Rightarrow>
               (case createLoop cmClient newCrts of
                  (cs1, es1, Some err) \<Rightarrow>
                    \<lparr>calls = cs1, events = es1, logs = ls, returned = Err err\<rparr>
                | (cs1, es1, None) \<Rightarrow>
                    (case updateLoop cmClient updateCrts of
                       (cs2, es2, Some err) \<Rightarrow>
                         \<lparr>calls = cs1 @ cs2, events = es1 @ es2, logs = ls, returned = Err err\<rparr>
                     | (cs2, es2, None) \<Rightarrow>
                         (case lister_List cmLister (Namespace (vs_ObjectMeta vs)) of
                            (certs, Some err) \<Rightarrow>
                              \<lparr>calls = cs1 @ cs2, events = es1 @ es2, logs = ls,
                               returned = Err err\<rparr>
                          | (certs, None) \<Rightarrow>
                              (case deleteLoop cmClient (Namespace (vs_ObjectMeta vs))
                                      (findCertificatesToBeRemoved certs vs) of
                                 (cs3, es3, r) \<Rightarrow>
                                   \<lparr>calls = cs1 @ cs2 @ cs3, events = es1 @ es2 @ es3, logs = ls,
                                    returned = (case r of Some err \<Rightarrow> Err err | None \<Rightarrow> Ok ())\<rparr>))))))"

section \<open>controller.go: the event handlers\<close>

text \<open>
  The handlers receive an \<open>interface{}\<close>: a Certificate, a VirtualServer, the tombstone
  \<open>cache.DeletedFinalStateUnknown\<close> around an object, or something else. What they put
  on the work queue is an \<open>interface{}\<close> too: a string key or a VirtualServer pointer.
  A handler is observed through its calls to \<open>queue.Add\<close> and \<open>runtime.HandleError\<close>.
\<close>

datatype obj =
    CertificateObj Certificate
  | VirtualServerObj VirtualServer
  | DeletedFinalStateUnknown string obj
  | OtherObj

datatype item = StringItem string | VirtualServerItem VirtualServer

datatype effect = QueueAdd item | HandleError string

fun certificateHandler :: "obj \<Rightarrow> effect list" where
  "certificateHandler (CertificateObj crt) =
     (case GetControllerOf crt of
        None \<Rightarrow> []
      | Some r \<Rightarrow>
          (if ref_Kind r \<noteq> ''VirtualServer'' then []
           else [QueueAdd (StringItem (Namespace (crt_ObjectMeta crt) @ ''/'' @ ref_Name r))]))"
| "certificateHandler _ = [HandleError ''not a Certificate object'']"

text \<open>
  The three functions of \<open>createVirtualServerHandlers\<close>. A type assertion without the
  \<open>ok\<close> result panics on another type.
\<close>

fun AddFunc :: "obj \<Rightarrow> effect list result" where
  "AddFunc (VirtualServerObj vs) = Ok [QueueAdd (VirtualServerItem vs)]"
| "AddFunc _ = Panic"

fun DeleteFunc :: "obj \<Rightarrow> effect list result" where
  "DeleteFunc (VirtualServerObj vs) = Ok [QueueAdd (VirtualServerItem vs)]"
| "DeleteFunc (DeletedFinalStateUnknown key (VirtualServerObj vs)) =
     Ok [QueueAdd (VirtualServerItem vs)]"
| "DeleteFunc (DeletedFinalStateUnknown key _) =
     Ok [HandleError ''DeletedFinalStateUnknown contained non-VirtualServer object'']"
| "DeleteFunc _ = Ok [HandleError ''received unexpected object'']"

fun UpdateFunc :: "obj \<Rightarrow> obj \<Rightarrow> effect list result" where
  "UpdateFunc (VirtualServerObj oldVs) (VirtualServerObj curVs) =
     (if tls_CertManager (spec_TLS (vs_Spec oldVs)) \<noteq> tls_CertManager (spec_TLS (vs_Spec curVs))
      then Ok [QueueAdd (VirtualServerItem curVs)]
      else Ok [])"
| "UpdateFunc _ _ = Panic"

text \<open>
  \<open>cache.SplitMetaNamespaceKey\<close>: a key without a slash is a name, a key with one slash
  is a namespace and a name, any other key is an error.
\<close>

definition SplitMetaNamespaceKey :: "string \<Rightarrow> error + string \<times> string" where
  "SplitMetaNamespaceKey key =
     (case Split key CHR ''/'' of
        [name] \<Rightarrow> Inr ([], name)
      | [namespace, name] \<Rightarrow> Inr (namespace, name)
      | _ \<Rightarrow> Inl (ErrorsNew ''unexpected key format''))"

text \<open>
  \<open>ProcessItem\<close> takes a string key. The VirtualServer lister returns a pointer and an
  error; the sync function is called with the pointer, which it dereferences first.
\<close>

definition ProcessItem ::
  "library \<Rightarrow> CertificateClient \<Rightarrow> CertificateLister \<Rightarrow> IngressShimOptions \<Rightarrow>
   (string \<Rightarrow> string \<Rightarrow> VirtualServer option \<times> error option) \<Rightarrow> string \<Rightarrow> pass" where
  "ProcessItem lib cmClient cmLister defaults vsLister key =
     (case SplitMetaNamespaceKey key of
        Inl err \<Rightarrow>
          \<lparr>calls = [], events = [], logs = [''invalid resource key: '' @ key], returned = Ok ()\<rparr>
      | Inr (namespace, name) \<Rightarrow>
          (case vsLister namespace name of
             (crt, Some err) \<Rightarrow>
               (if IsNotFound (Some err)
                then \<lparr>calls = [], events = [],
                      logs = [''virtualServer '' @ key @ '' in work queue no longer exists''],
                      returned = Ok ()\<rparr>
                else \<lparr>calls = [], events = [], logs = [], returned = Err err\<rparr>)
           | (None, None) \<Rightarrow> \<lparr>calls = [], events = [], logs = [], returned = Panic\<rparr>
           | (Some vs, None) \<Rightarrow> SyncFnFor lib cmClient cmLister defaults vs))"

section \<open>Example inputs\<close>

text \<open>
  The inputs at which the theorems below are evaluated. \<open>exampleLibrary\<close> stands for the
  real library at the strings used here only: Go's \<open>time.ParseDuration\<close> reads
  \<open>2160h\<close> and \<open>1440h\<close> as that many hours, in nanoseconds, and rejects \<open>bogus\<close>;
  cert-manager's default key usages are digital signature and key encipherment.
\<close>

definition exampleLibrary :: library where
  "exampleLibrary =
     \<lparr>ParseDuration = (\<lambda>s. if s = ''2160h'' then Inr 7776000000000000
                            else if s = ''1440h'' then Inr 5184000000000000
                            else Inl (''time: invalid duration '' @ quoted s)),
      KeyUsageType = (\<lambda>u. u \<in> set [''digital signature'', ''key encipherment'']),
      ExtKeyUsageType = (\<lambda>u. u \<in> set [''server auth'', ''client auth'']),
      DefaultKeyUsages = [''digital signature'', ''key encipherment'']\<rparr>"

definition exampleDefaults :: IngressShimOptions where
  "exampleDefaults =
     \<lparr>DefaultIssuerName = ''letsencrypt'', DefaultIssuerKind = ''ClusterIssuer'',
      DefaultIssuerGroup = []\<rparr>"

text \<open>A cert-manager block that is present and has every field empty.\<close>

definition emptyCertManager :: CertManager where
  "emptyCertManager =
     \<lparr>cm_ClusterIssuer = [], cm_Issuer = [], cm_IssuerKind = [], cm_IssuerGroup = [],
      cm_CommonName = [], cm_Duration = [], cm_RenewBefore = [], cm_Usages = []\<rparr>"

definition conflictingCertManager :: CertManager where
  "conflictingCertManager =
     emptyCertManager\<lparr>cm_Issuer := ''my-issuer'', cm_ClusterIssuer := ''my-cluster-issuer''\<rparr>"



text \<open>The VirtualServer \<open>default/vs1\<close> for \<open>example.com\<close>, with a given cert-manager block.\<close>

definition exampleVs :: "CertManager option \<Rightarrow> VirtualServer" where
  "exampleVs cm =
     \<lparr>vs_ObjectMeta =
        \<lparr>Name = ''vs1'', Namespace = ''default'', UID = ''uid-vs1'', ResourceVersion = ''1'',
         Labels = None, OwnerReferences = []\<rparr>,
      vs_Spec = \<lparr>Host = ''example.com'',
                 spec_TLS = \<lparr>Secret = ''example-tls'', tls_CertManager = cm\<rparr>\<rparr>\<rparr>"

text \<open>A Certificate in \<open>default\<close> as the controller would have created it.\<close>

definition exampleCrt :: "string \<Rightarrow> OwnerReference list \<Rightarrow> Certificate" where
  "exampleCrt secret refs =
     \<lparr>crt_ObjectMeta =
        \<lparr>Name = secret, Namespace = ''default'', UID = ''uid-crt'', ResourceVersion = ''7'',
         Labels = None, OwnerReferences = refs\<rparr>,
      crt_Spec =
        \<lparr>CommonName = [], Duration = None, RenewBefore = None,
         DNSNames = [''example.com''], SecretName = secret,
         IssuerRef = \<lparr>iss_Name = ''letsencrypt'', iss_Kind = ''ClusterIssuer'', iss_Group = []\<rparr>,
         Usages = [''digital signature'', ''key encipherment'']\<rparr>,
      crt_Status = ''Ready''\<rparr>"

definition gatewayRef :: OwnerReference where
  "gatewayRef =
     \<lparr>ref_APIVersion = ''networking.x-k8s.io/v1alpha1'', ref_Kind = ''Gateway'',
      ref_Name = ''gateway-1'', ref_UID = ''uid-gateway-1'', ref_Controller = Some True,
      ref_BlockOwnerDeletion = Some True\<rparr>"

text \<open>A lister whose cache is empty, a lister that holds one Certificate, two clients.\<close>

definition emptyLister :: CertificateLister where
  "emptyLister =
     \<lparr>lister_Get = (\<lambda>ns name. (None, Some (StatusError ''NotFound''))),
      lister_List = (\<lambda>ns. ([], None))\<rparr>"

definition listerOf :: "Certificate \<Rightarrow> CertificateLister" where
  "listerOf crt =
     \<lparr>lister_Get = (\<lambda>ns name. (Some crt, None)),
      lister_List = (\<lambda>ns. ([crt], None))\<rparr>"

definition okClient :: CertificateClient where
  "okClient =
     \<lparr>client_Create = (\<lambda>ns crt. None), client_Update = (\<lambda>ns crt. None),
      client_Delete = (\<lambda>ns name. None)\<rparr>"

definition failingClient :: CertificateClient where
  "failingClient =
     \<lparr>client_Create = (\<lambda>ns crt. Some (StatusError ''Forbidden'')),
      client_Update = (\<lambda>ns crt. Some (StatusError ''Forbidden'')),
      client_Delete = (\<lambda>ns name. Some (StatusError ''Forbidden''))\<rparr>"

section \<open>Facts about the model\<close>

subsection \<open>The annotation keys are distinct\<close>

lemmas annotation_keys =
  CommonNameAnnotationKey_def DurationAnnotationKey_def RenewBeforeAnnotationKey_def
  UsagesAnnotationKey_def IngressClusterIssuerNameAnnotationKey_def
  IngressIssuerNameAnnotationKey_def IssuerKindAnnotationKey_def IssuerGroupAnnotationKey_def

lemma spec_keys_distinct:
  "CommonNameAnnotationKey \<noteq> DurationAnnotationKey"
  "CommonNameAnnotationKey \<noteq> RenewBeforeAnnotationKey"
  "CommonNameAnnotationKey \<noteq> UsagesAnnotationKey"
  "DurationAnnotationKey \<noteq> RenewBeforeAnnotationKey"
  "DurationAnnotationKey \<noteq> UsagesAnnotationKey"
  "RenewBeforeAnnotationKey \<noteq> UsagesAnnotationKey"
  by (simp_all add: annotation_keys)

lemma issuer_keys_distinct:
  "IngressIssuerNameAnnotationKey \<noteq> IngressClusterIssuerNameAnnotationKey"
  "IngressIssuerNameAnnotationKey \<noteq> IssuerKindAnnotationKey"
  "IngressIssuerNameAnnotationKey \<noteq> IssuerGroupAnnotationKey"
  "IngressClusterIssuerNameAnnotationKey \<noteq> IssuerKindAnnotationKey"
  "IngressClusterIssuerNameAnnotationKey \<noteq> IssuerGroupAnnotationKey"
  "IssuerKindAnnotationKey \<noteq> IssuerGroupAnnotationKey"
  by (simp_all add: annotation_keys)

subsection \<open>What the two translations write\<close>


lemma getVsCmSpecIssuerAnnotations_lookup:
  "\<exists>a. getVsCmSpecIssuerAnnotations (Some cm) = Ok a
     \<and> a IngressIssuerNameAnnotationKey = (if cm_Issuer cm \<noteq> [] then Some (cm_Issuer cm) else None)
     \<and> a IngressClusterIssuerNameAnnotationKey =
         (if cm_ClusterIssuer cm \<noteq> [] then Some (cm_ClusterIssuer cm) else None)
     \<and> a IssuerKindAnnotationKey = (if cm_IssuerKind cm \<noteq> [] then Some (cm_IssuerKind cm) else None)
     \<and> a IssuerGroupAnnotationKey = (if cm_IssuerGroup cm \<noteq> [] then Some (cm_IssuerGroup cm) else None)"
  using issuer_keys_distinct issuer_keys_distinct [symmetric]
  by (simp add: getVsCmSpecIssuerAnnotations_def Let_def)







subsection \<open>The issuer\<close>

lemma issuer_conflict_errs_aux:
  assumes "getVsCmSpecIssuerAnnotations (tls_CertManager (spec_TLS (vs_Spec vs))) = Ok a"
      and "a IngressIssuerNameAnnotationKey = Some i"
      and "a IngressClusterIssuerNameAnnotationKey = Some c" and "c \<noteq> []"
  shows "\<exists>rest. issuerForIngressLike defaults vs =
           Err (ErrorsNew (bothMayNotBeSet IngressIssuerNameAnnotationKey
                                   IngressClusterIssuerNameAnnotationKey @ rest))"
  using assms by (simp add: issuerForIngressLike_def Let_def)

lemma issuer_conflict_errs:
  assumes "tls_CertManager (spec_TLS (vs_Spec vs)) = Some cm"
      and "cm_Issuer cm \<noteq> []" and "cm_ClusterIssuer cm \<noteq> []"
  shows "\<exists>rest. issuerForIngressLike defaults vs =
           Err (ErrorsNew (bothMayNotBeSet IngressIssuerNameAnnotationKey
                                   IngressClusterIssuerNameAnnotationKey @ rest))"
proof -
  from getVsCmSpecIssuerAnnotations_lookup [of cm] obtain a where
    "getVsCmSpecIssuerAnnotations (Some cm) = Ok a"
    "a IngressIssuerNameAnnotationKey = Some (cm_Issuer cm)"
    "a IngressClusterIssuerNameAnnotationKey = Some (cm_ClusterIssuer cm)"
    using assms(2,3) by auto
  then show ?thesis
    using issuer_conflict_errs_aux [of vs a "cm_Issuer cm" "cm_ClusterIssuer cm" defaults] assms
    by simp
qed

lemma bothMayNotBeSet_names:
  "sublist (quoted k1) (bothMayNotBeSet k1 k2 @ rest)"
  "sublist (quoted k2) (bothMayNotBeSet k1 k2 @ rest)"
proof -
  have "bothMayNotBeSet k1 k2 @ rest =
          ''both '' @ quoted k1 @ ('' and '' @ quoted k2 @ '' may not be set'' @ rest)"
    by (simp add: bothMayNotBeSet_def)
  then show "sublist (quoted k1) (bothMayNotBeSet k1 k2 @ rest)"
    by (metis sublist_appendI)
  have "bothMayNotBeSet k1 k2 @ rest =
          (''both '' @ quoted k1 @ '' and '') @ quoted k2 @ ('' may not be set'' @ rest)"
    by (simp add: bothMayNotBeSet_def)
  then show "sublist (quoted k2) (bothMayNotBeSet k1 k2 @ rest)"
    by (metis sublist_appendI)
qed

subsection \<open>The builder\<close>

lemma buildCertificates_translated:
  assumes cm: "tls_CertManager (spec_TLS (vs_Spec vs)) = Some cm"
      and get: "lister_Get cmLister (Namespace (vs_ObjectMeta vs)) (Secret (spec_TLS (vs_Spec vs))) = (existingCrt, err)"
      and nf: "err = None \<or> IsNotFound err"
      and conv: "convertVsCmSpecToAnnotations (Some cm) = Ok a"
      and tr: "translateAnnotations lib (Some (desiredCertificate lib vs n k g)) a = (Some crt, e)"
  shows "buildCertificates lib cmLister vs n k g =
           (case e of
              Some x \<Rightarrow> Err x
            | None \<Rightarrow>
                (case existingCrt of
                   Some ex \<Rightarrow> Ok (existingLogs ex crt vs, [], [updateOf ex crt])
                 | None \<Rightarrow> Ok ([], [crt], [])))"
  using nf
  by (auto simp: buildCertificates_def cm get conv tr
           simp del: convertVsCmSpecToAnnotations.simps translateAnnotations.simps
           split: option.splits)


lemma desiredCertificate_meta:
  "Namespace (crt_ObjectMeta (desiredCertificate lib vs n k g)) = Namespace (vs_ObjectMeta vs)"
  "Name (crt_ObjectMeta (desiredCertificate lib vs n k g)) = Secret (spec_TLS (vs_Spec vs))"
  by (simp_all add: desiredCertificate_def)

subsection \<open>The pass\<close>





subsection \<open>Ownership and garbage collection\<close>

lemma removalLoop_filter:
  "removalLoop certs vs acc =
     acc @ map (\<lambda>c. Name (crt_ObjectMeta c))
             (filter (\<lambda>c. IsControlledBy c vs \<and> SecretName (crt_Spec c) \<noteq> Secret (spec_TLS (vs_Spec vs))) certs)"
  by (induction certs arbitrary: acc) (simp_all add: secretNameUsedIn_def)

lemma controllerRef_None: "controllerRef refs = None \<longleftrightarrow> (\<forall>r \<in> set refs. ref_Controller r \<noteq> Some True)"
  by (induction refs) auto

subsection \<open>The handlers\<close>

text \<open>An update is put on the queue exactly when the two cert-manager blocks differ.\<close>

lemma UpdateFunc_enqueues:
  "UpdateFunc (VirtualServerObj oldVs) (VirtualServerObj curVs) =
     Ok (if tls_CertManager (spec_TLS (vs_Spec oldVs)) = tls_CertManager (spec_TLS (vs_Spec curVs))
         then [] else [QueueAdd (VirtualServerItem curVs)])"
  by simp

text \<open>The key that \<open>certificateHandler\<close> builds is one \<open>ProcessItem\<close> reads back.\<close>

lemma SplitMetaNamespaceKey_example:
  "SplitMetaNamespaceKey ''default/vs1'' = Inr (''default'', ''vs1'')"
  by (simp add: SplitMetaNamespaceKey_def)

lemma ProcessItem_example:
  "vsLister ''default'' ''vs1'' = (Some vs, None) \<Longrightarrow>
     ProcessItem lib cmClient cmLister defaults vsLister ''default/vs1'' =
       SyncFnFor lib cmClient cmLister defaults vs"
  by (simp add: ProcessItem_def SplitMetaNamespaceKey_example)

subsection \<open>The example inputs, evaluated\<close>

lemma example_vs_fields:
  "Namespace (vs_ObjectMeta (exampleVs cm)) = ''default''"
  "Secret (spec_TLS (vs_Spec (exampleVs cm))) = ''example-tls''"
  "tls_CertManager (spec_TLS (vs_Spec (exampleVs cm))) = cm"
  by (simp_all add: exampleVs_def)

lemma example_store:
  "lister_Get emptyLister ns name = (None, Some (StatusError ''NotFound''))"
  "lister_List emptyLister ns = ([], None)"
  "lister_Get (listerOf crt) ns name = (Some crt, None)"
  "lister_List (listerOf crt) ns = ([crt], None)"
  "client_Create okClient ns crt = None"
  "client_Update okClient ns crt = None"
  "client_Delete okClient ns name = None"
  "client_Create failingClient ns crt = Some (StatusError ''Forbidden'')"
  "client_Update failingClient ns crt = Some (StatusError ''Forbidden'')"
  "client_Delete failingClient ns name = Some (StatusError ''Forbidden'')"
  by (simp_all add: emptyLister_def listerOf_def okClient_def failingClient_def)

lemma example_issuer_default:
  "issuerForIngressLike exampleDefaults (exampleVs (Some emptyCertManager)) =
     Ok (''letsencrypt'', ''ClusterIssuer'', [])"
  by (simp add: issuerForIngressLike_def getVsCmSpecIssuerAnnotations_def exampleVs_def
        emptyCertManager_def exampleDefaults_def)



lemma example_convert_empty:
  "convertVsCmSpecToAnnotations (Some emptyCertManager) = Ok Map.empty"
  by (simp add: emptyCertManager_def)


lemma example_translate_empty:
  "translateAnnotations lib (Some crt) Map.empty = (Some crt, None)"
  by (simp add: applyCommonName_def applyDuration_def applyRenewBefore_def applyUsages_def)


text \<open>The example of the doc comment of \<open>translateAnnotations\<close>.\<close>

lemma example_translate_doc_comment:
  "translateAnnotations exampleLibrary (Some (exampleCrt ''example-tls'' []))
     [CommonNameAnnotationKey \<mapsto> ''example.com'', DurationAnnotationKey \<mapsto> ''2160h'',
      RenewBeforeAnnotationKey \<mapsto> ''1440h'',
      UsagesAnnotationKey \<mapsto> ''digital signature,key encipherment''] =
   (Some ((exampleCrt ''example-tls'' [])
            \<lparr>crt_Spec := (crt_Spec (exampleCrt ''example-tls'' []))
               \<lparr>CommonName := ''example.com'', Duration := Some 7776000000000000,
                RenewBefore := Some 5184000000000000,
                Usages := [''digital signature'', ''key encipherment'']\<rparr>\<rparr>), None)"
  using spec_keys_distinct spec_keys_distinct [symmetric]
  by (simp add: applyCommonName_def applyDuration_def applyRenewBefore_def applyUsages_def
        exampleLibrary_def Trim_def)


lemma example_controlled:
  "IsControlledBy (exampleCrt secret [NewControllerRef (exampleVs cm)]) (exampleVs cm')"
  "\<not> IsControlledBy (exampleCrt secret [gatewayRef]) (exampleVs cm')"
  "\<not> IsControlledBy (exampleCrt secret []) (exampleVs cm')"
  by (simp_all add: IsControlledBy_def GetControllerOf_def exampleCrt_def NewControllerRef_def
        exampleVs_def gatewayRef_def)

lemma example_build_empty:
  "buildCertificates exampleLibrary emptyLister (exampleVs (Some emptyCertManager)) n k g =
     Ok ([], [desiredCertificate exampleLibrary (exampleVs (Some emptyCertManager)) n k g], [])"
  using buildCertificates_translated [of "exampleVs (Some emptyCertManager)" emptyCertManager
          emptyLister None "Some (StatusError ''NotFound'')" Map.empty exampleLibrary n k g
          "desiredCertificate exampleLibrary (exampleVs (Some emptyCertManager)) n k g" None]
  by (simp add: example_vs_fields example_convert_empty example_translate_empty emptyLister_def
      del: convertVsCmSpecToAnnotations.simps translateAnnotations.simps)


lemma example_desired:
  "desiredCertificate exampleLibrary (exampleVs (Some emptyCertManager))
      ''letsencrypt'' ''ClusterIssuer'' [] =
   \<lparr>crt_ObjectMeta =
      \<lparr>Name = ''example-tls'', Namespace = ''default'', UID = [], ResourceVersion = [],
       Labels = None, OwnerReferences = [NewControllerRef (exampleVs (Some emptyCertManager))]\<rparr>,
    crt_Spec =
      \<lparr>CommonName = [], Duration = None, RenewBefore = None,
       DNSNames = [''example.com''], SecretName = ''example-tls'',
       IssuerRef = \<lparr>iss_Name = ''letsencrypt'', iss_Kind = ''ClusterIssuer'', iss_Group = []\<rparr>,
       Usages = [''digital signature'', ''key encipherment'']\<rparr>,
    crt_Status = []\<rparr>"
  by (simp add: desiredCertificate_def exampleVs_def exampleLibrary_def)

lemma example_sync_empty_block:
  "SyncFnFor exampleLibrary okClient emptyLister exampleDefaults (exampleVs (Some emptyCertManager)) =
     \<lparr>calls = [Create ''default''
                 (desiredCertificate exampleLibrary (exampleVs (Some emptyCertManager))
                    ''letsencrypt'' ''ClusterIssuer'' [])],
      events = [Eventf EventTypeNormal reasonCreateCertificate
                  ''Successfully created Certificate %q'' [ArgString ''example-tls'']],
      logs = [],
      returned = Ok ()\<rparr>"
  by (simp add: SyncFnFor_def example_issuer_default example_build_empty example_vs_fields
        desiredCertificate_meta example_store findCertificatesToBeRemoved_def)


section \<open>The claims\<close>

text \<open>
  C1. The claim: the translation of a cert-manager block writes commonName, duration,
  renewBefore and usages each under its own annotation key, and a key is present exactly
  when its field is not empty. The code writes the renewBefore and the usages fields
  under the duration key. For a block whose only non-empty field is renewBefore
  (\<open>1440h\<close>), the result holds that value under \<open>cert-manager.io/duration\<close> and has
  no \<open>cert-manager.io/renew-before\<close> key.
\<close>

theorem convertVsCmSpecToAnnotations_renewBefore_under_duration_key:
  "convertVsCmSpecToAnnotations (Some (emptyCertManager\<lparr>cm_RenewBefore := ''1440h''\<rparr>)) =
     Ok [DurationAnnotationKey \<mapsto> ''1440h'']
 \<and> [DurationAnnotationKey \<mapsto> ''1440h''] RenewBeforeAnnotationKey = None"
  using spec_keys_distinct by (simp add: emptyCertManager_def)

text \<open>
  C2. The claim: for the VirtualServer \<open>default/vs1\<close> with host \<open>example.com\<close>, secret
  \<open>example-tls\<close> and no cert-manager block, with the defaults \<open>letsencrypt\<close>,
  \<open>ClusterIssuer\<close> and an empty group, one pass makes exactly one create. In the code the
  block is read through its nil pointer while the issuer is determined: the pass panics
  before any call to the store, whatever the library, the client and the lister are.
\<close>

theorem SyncFnFor_panics_without_CertManager_block:
  "SyncFnFor lib cmClient cmLister exampleDefaults (exampleVs None) =
     \<lparr>calls = [], events = [], logs = [], returned = Panic\<rparr>"
  by (simp add: SyncFnFor_def issuerForIngressLike_def getVsCmSpecIssuerAnnotations_def
        example_vs_fields)

text \<open>
  C3. For every VirtualServer whose cert-manager block sets both an issuer and a cluster
  issuer, \<open>issuerForIngressLike\<close> returns an error whose message contains the quoted
  issuer key and the quoted cluster-issuer key, and the pass reports that error in one
  Warning event with reason \<open>BadConfig\<close>, makes no call to the store and returns nil.
\<close>

theorem issuer_and_clusterIssuer_conflict:
  assumes "tls_CertManager (spec_TLS (vs_Spec vs)) = Some cm"
      and "cm_Issuer cm \<noteq> []" and "cm_ClusterIssuer cm \<noteq> []"
  shows "\<exists>msg. issuerForIngressLike defaults vs = Err (ErrorsNew msg)
           \<and> sublist (quoted IngressIssuerNameAnnotationKey) msg
           \<and> sublist (quoted IngressClusterIssuerNameAnnotationKey) msg
           \<and> SyncFnFor lib cmClient cmLister defaults vs =
               \<lparr>calls = [],
                events = [Eventf EventTypeWarning reasonBadConfig
                           ''Could not determine issuer for ingress due to bad annotations: %s''
                           [ArgError (ErrorsNew msg)]],
                logs = [''failed to determine issuer to be used for ingress resource''],
                returned = Ok ()\<rparr>"
proof -
  from issuer_conflict_errs [OF assms] obtain rest where
    e: "issuerForIngressLike defaults vs =
          Err (ErrorsNew (bothMayNotBeSet IngressIssuerNameAnnotationKey
                            IngressClusterIssuerNameAnnotationKey @ rest))"
    by blast
  show ?thesis
    using e by (simp add: SyncFnFor_def bothMayNotBeSet_names)
qed

text \<open>C3 at the block with issuer \<open>my-issuer\<close> and cluster issuer \<open>my-cluster-issuer\<close>.\<close>

theorem issuer_and_clusterIssuer_conflict_witness:
  "tls_CertManager (spec_TLS (vs_Spec (exampleVs (Some conflictingCertManager)))) =
     Some conflictingCertManager
 \<and> cm_Issuer conflictingCertManager \<noteq> []
 \<and> cm_ClusterIssuer conflictingCertManager \<noteq> []
 \<and> (\<exists>msg. issuerForIngressLike exampleDefaults (exampleVs (Some conflictingCertManager)) =
             Err (ErrorsNew msg)
        \<and> sublist (quoted IngressIssuerNameAnnotationKey) msg
        \<and> sublist (quoted IngressClusterIssuerNameAnnotationKey) msg
        \<and> SyncFnFor exampleLibrary okClient emptyLister exampleDefaults
             (exampleVs (Some conflictingCertManager)) =
            \<lparr>calls = [],
             events = [Eventf EventTypeWarning reasonBadConfig
                         ''Could not determine issuer for ingress due to bad annotations: %s''
                         [ArgError (ErrorsNew msg)]],
             logs = [''failed to determine issuer to be used for ingress resource''],
             returned = Ok ()\<rparr>)"
proof -
  have h1: "tls_CertManager (spec_TLS (vs_Spec (exampleVs (Some conflictingCertManager)))) =
     Some conflictingCertManager"
    by (simp add: example_vs_fields)
  have h2: "cm_Issuer conflictingCertManager \<noteq> []"
    by (simp add: conflictingCertManager_def)
  have h3: "cm_ClusterIssuer conflictingCertManager \<noteq> []"
    by (simp add: conflictingCertManager_def)
  show ?thesis
    using issuer_and_clusterIssuer_conflict [OF h1 h2 h3, of exampleDefaults exampleLibrary
            okClient emptyLister] h1 h2 h3
    by simp
qed







text \<open>
  C6. For every list of Certificates and every VirtualServer, the garbage collector
  returns the names of exactly the Certificates that are controlled by the VirtualServer
  and whose secret name is not the VirtualServer's, in the order of the list. Certificates
  that the VirtualServer does not control play no part in the result. A name is returned
  if and only if it is the name of a Certificate of the list that is controlled by the
  VirtualServer and whose secret name differs.
\<close>

theorem findCertificatesToBeRemoved_owned_and_unused:
  "findCertificatesToBeRemoved certs vs =
     map (\<lambda>crt. Name (crt_ObjectMeta crt))
       (filter (\<lambda>crt. IsControlledBy crt vs
                     \<and> SecretName (crt_Spec crt) \<noteq> Secret (spec_TLS (vs_Spec vs))) certs)
 \<and> findCertificatesToBeRemoved certs vs =
     findCertificatesToBeRemoved (filter (\<lambda>crt. IsControlledBy crt vs) certs) vs
 \<and> (\<forall>name. name \<in> set (findCertificatesToBeRemoved certs vs) \<longleftrightarrow>
       (\<exists>crt \<in> set certs. Name (crt_ObjectMeta crt) = name \<and> IsControlledBy crt vs
          \<and> SecretName (crt_Spec crt) \<noteq> Secret (spec_TLS (vs_Spec vs))))"
proof -
  have "filter (\<lambda>crt. IsControlledBy crt vs
                     \<and> SecretName (crt_Spec crt) \<noteq> Secret (spec_TLS (vs_Spec vs)))
          (filter (\<lambda>crt. IsControlledBy crt vs) certs) =
        filter (\<lambda>crt. IsControlledBy crt vs
                     \<and> SecretName (crt_Spec crt) \<noteq> Secret (spec_TLS (vs_Spec vs))) certs"
    by (induction certs) simp_all
  then show ?thesis
    by (auto simp: findCertificatesToBeRemoved_def removalLoop_filter)
qed

text \<open>
  C6 at three Certificates: one controlled by \<open>vs1\<close> with another secret name, one
  controlled by \<open>vs1\<close> with its secret name, one controlled by a Gateway with another
  secret name. Only the first is returned.
\<close>

theorem findCertificatesToBeRemoved_owned_and_unused_witness:
  "findCertificatesToBeRemoved
     [exampleCrt ''old-tls'' [NewControllerRef (exampleVs None)],
      exampleCrt ''example-tls'' [NewControllerRef (exampleVs None)],
      exampleCrt ''other-tls'' [gatewayRef]] (exampleVs None) = [''old-tls'']
 \<and> \<not> IsControlledBy (exampleCrt ''other-tls'' [gatewayRef]) (exampleVs None)
 \<and> SecretName (crt_Spec (exampleCrt ''other-tls'' [gatewayRef])) \<noteq>
     Secret (spec_TLS (vs_Spec (exampleVs None)))
 \<and> ''other-tls'' \<notin> set (findCertificatesToBeRemoved
     [exampleCrt ''old-tls'' [NewControllerRef (exampleVs None)],
      exampleCrt ''example-tls'' [NewControllerRef (exampleVs None)],
      exampleCrt ''other-tls'' [gatewayRef]] (exampleVs None))
 \<and> ''old-tls'' \<in> set (findCertificatesToBeRemoved
     [exampleCrt ''old-tls'' [NewControllerRef (exampleVs None)],
      exampleCrt ''example-tls'' [NewControllerRef (exampleVs None)],
      exampleCrt ''other-tls'' [gatewayRef]] (exampleVs None))"
  using findCertificatesToBeRemoved_owned_and_unused
          [of "[exampleCrt ''old-tls'' [NewControllerRef (exampleVs None)],
                exampleCrt ''example-tls'' [NewControllerRef (exampleVs None)],
                exampleCrt ''other-tls'' [gatewayRef]]" "exampleVs None"]
    example_controlled
  by (simp add: exampleCrt_def exampleVs_def)




text \<open>
  C8. For every Certificate notification: when no owner reference of the Certificate has
  its controller flag set, the handler puts nothing on the queue; when the controller
  reference has a kind other than \<open>VirtualServer\<close>, it puts nothing on the queue;
  otherwise it puts exactly one key on the queue, the Certificate's namespace, a slash
  and the name in the controller reference.
\<close>

theorem certificateHandler_enqueues_owner:
  "((\<forall>r \<in> set (OwnerReferences (crt_ObjectMeta crt)). ref_Controller r \<noteq> Some True) \<longrightarrow>
      certificateHandler (CertificateObj crt) = [])
 \<and> (\<forall>r. GetControllerOf crt = Some r \<and> ref_Kind r \<noteq> ''VirtualServer'' \<longrightarrow>
      certificateHandler (CertificateObj crt) = [])
 \<and> (\<forall>r. GetControllerOf crt = Some r \<and> ref_Kind r = ''VirtualServer'' \<longrightarrow>
      certificateHandler (CertificateObj crt) =
        [QueueAdd (StringItem (Namespace (crt_ObjectMeta crt) @ ''/'' @ ref_Name r))])"
  by (simp add: GetControllerOf_def controllerRef_None [symmetric])

text \<open>
  C8 at a Certificate without owner references, at one controlled by a Gateway and at one
  controlled by \<open>vs1\<close>.
\<close>

theorem certificateHandler_enqueues_owner_witness:
  "OwnerReferences (crt_ObjectMeta (exampleCrt ''example-tls'' [])) = []
 \<and> certificateHandler (CertificateObj (exampleCrt ''example-tls'' [])) = []
 \<and> GetControllerOf (exampleCrt ''example-tls'' [gatewayRef]) = Some gatewayRef
 \<and> ref_Kind gatewayRef \<noteq> ''VirtualServer''
 \<and> certificateHandler (CertificateObj (exampleCrt ''example-tls'' [gatewayRef])) = []
 \<and> GetControllerOf (exampleCrt ''example-tls'' [NewControllerRef (exampleVs None)]) =
      Some (NewControllerRef (exampleVs None))
 \<and> ref_Kind (NewControllerRef (exampleVs None)) = ''VirtualServer''
 \<and> certificateHandler (CertificateObj (exampleCrt ''example-tls'' [NewControllerRef (exampleVs None)])) =
      [QueueAdd (StringItem ''default/vs1'')]"
  using certificateHandler_enqueues_owner [of "exampleCrt ''example-tls'' []"]
    certificateHandler_enqueues_owner [of "exampleCrt ''example-tls'' [gatewayRef]"]
    certificateHandler_enqueues_owner
      [of "exampleCrt ''example-tls'' [NewControllerRef (exampleVs None)]"]
  by (simp add: GetControllerOf_def exampleCrt_def gatewayRef_def NewControllerRef_def
        exampleVs_def vsGVK_Kind_def)

text \<open>
  C9. The claim: on a VirtualServer notification the handlers put the VirtualServer's
  identity, its namespace and name, on the queue. The handlers put the VirtualServer
  object itself on the queue: for an add notification of \<open>default/vs1\<close> the queue
  receives the object, not the key \<open>default/vs1\<close> that \<open>certificateHandler\<close> builds
  and \<open>ProcessItem\<close> reads.
\<close>

theorem AddFunc_enqueues_object_not_key:
  "AddFunc (VirtualServerObj (exampleVs (Some emptyCertManager))) =
     Ok [QueueAdd (VirtualServerItem (exampleVs (Some emptyCertManager)))]
 \<and> AddFunc (VirtualServerObj (exampleVs (Some emptyCertManager))) \<noteq>
     Ok [QueueAdd (StringItem ''default/vs1'')]"
  by simp

text \<open>
  C10. For every annotation map, \<open>translateAnnotations\<close> on a nil Certificate pointer
  returns the error \<open>the supplied Certificate pointer was nil\<close>; the pointer is still
  nil, and the result does not depend on the annotations.
\<close>

theorem translateAnnotations_nil_certificate:
  "translateAnnotations lib None ingLikeAnnotations =
     (None, Some (ErrorsNew ''the supplied Certificate pointer was nil''))"
  by (simp add: errNilCertificate_def)

end
